theory Spec2Isabelle
  imports Complex_Main
begin

section \<open>Python values: exceptions and floats\<close>

text \<open>
  The built-in exceptions the modelled code can raise.  The repository defines no
  exception classes of its own.
\<close>

datatype error = ValueError | OverflowError | IndexError | FileNotFoundError

text \<open>
  Sequencing of computations that may raise: the first exception aborts what follows.
\<close>

definition bind :: "error + 'a \<Rightarrow> ('a \<Rightarrow> error + 'b) \<Rightarrow> error + 'b" where
  "bind r f = (case r of Inl e \<Rightarrow> Inl e | Inr v \<Rightarrow> f v)"

text \<open>
  A Python float.  A finite float64 is read as the real number it denotes and arithmetic
  on finite values is exact (no rounding error, no overflow to infinity); the three
  special values behave as IEEE 754 and the \<open>math\<close> module prescribe.
\<close>

datatype pyfloat = Fin real | PInf | NInf | NaN

fun is_finite :: "pyfloat \<Rightarrow> bool" where
  "is_finite (Fin x) = True"
| "is_finite PInf = False"
| "is_finite NInf = False"
| "is_finite NaN = False"

fun fsign :: "pyfloat \<Rightarrow> real" where
  "fsign (Fin x) = sgn x"
| "fsign PInf = 1"
| "fsign NInf = - 1"
| "fsign NaN = 0"

fun fneg :: "pyfloat \<Rightarrow> pyfloat" where
  "fneg (Fin x) = Fin (- x)"
| "fneg PInf = NInf"
| "fneg NInf = PInf"
| "fneg NaN = NaN"

fun fadd :: "pyfloat \<Rightarrow> pyfloat \<Rightarrow> pyfloat" where
  "fadd (Fin x) (Fin y) = Fin (x + y)"
| "fadd NaN b = NaN"
| "fadd a NaN = NaN"
| "fadd PInf NInf = NaN"
| "fadd NInf PInf = NaN"
| "fadd PInf b = PInf"
| "fadd NInf b = NInf"
| "fadd a PInf = PInf"
| "fadd a NInf = NInf"

definition fsub :: "pyfloat \<Rightarrow> pyfloat \<Rightarrow> pyfloat" where
  "fsub a b = fadd a (fneg b)"

fun fmul :: "pyfloat \<Rightarrow> pyfloat \<Rightarrow> pyfloat" where
  "fmul (Fin x) (Fin y) = Fin (x * y)"
| "fmul a b =
     (if a = NaN \<or> b = NaN \<or> fsign a * fsign b = 0 then NaN
      else if 0 < fsign a * fsign b then PInf else NInf)"

text \<open>\<open>x / 2\<close>: halving is the same as multiplying by \<open>0.5\<close>.\<close>

definition fhalf :: "pyfloat \<Rightarrow> pyfloat" where
  "fhalf a = fmul a (Fin (1 / 2))"

text \<open>\<open>x ** 2\<close>\<close>

definition fsquare :: "pyfloat \<Rightarrow> pyfloat" where
  "fsquare a = fmul a a"

text \<open>\<open>math.radians\<close>: multiplication by \<open>pi / 180\<close>.\<close>

definition radians :: "pyfloat \<Rightarrow> pyfloat" where
  "radians a = fmul a (Fin (pi / 180))"

text \<open>\<open>math.sin\<close> and \<open>math.cos\<close> raise \<open>ValueError\<close> on an infinity and pass NaN on.\<close>

fun py_sin :: "pyfloat \<Rightarrow> error + pyfloat" where
  "py_sin (Fin x) = Inr (Fin (sin x))"
| "py_sin NaN = Inr NaN"
| "py_sin PInf = Inl ValueError"
| "py_sin NInf = Inl ValueError"

fun py_cos :: "pyfloat \<Rightarrow> error + pyfloat" where
  "py_cos (Fin x) = Inr (Fin (cos x))"
| "py_cos NaN = Inr NaN"
| "py_cos PInf = Inl ValueError"
| "py_cos NInf = Inl ValueError"

text \<open>\<open>math.sqrt\<close> raises \<open>ValueError\<close> on a negative argument.\<close>

fun py_sqrt :: "pyfloat \<Rightarrow> error + pyfloat" where
  "py_sqrt (Fin x) = (if x < 0 then Inl ValueError else Inr (Fin (sqrt x)))"
| "py_sqrt NaN = Inr NaN"
| "py_sqrt PInf = Inr PInf"
| "py_sqrt NInf = Inl ValueError"

text \<open>The two-argument arctangent on the reals, \<open>atan2 y x\<close>, with \<open>atan2 0 0 = 0\<close>.\<close>

definition atan2 :: "real \<Rightarrow> real \<Rightarrow> real" where
  "atan2 y x =
     (if 0 < x then arctan (y / x)
      else if x < 0 then (if 0 \<le> y then arctan (y / x) + pi else arctan (y / x) - pi)
      else if 0 < y then pi / 2
      else if y < 0 then - (pi / 2)
      else 0)"

text \<open>\<open>math.atan2\<close> never raises; infinities have the limits as values.\<close>

fun py_atan2 :: "pyfloat \<Rightarrow> pyfloat \<Rightarrow> pyfloat" where
  "py_atan2 (Fin y) (Fin x) = Fin (atan2 y x)"
| "py_atan2 NaN x = NaN"
| "py_atan2 y NaN = NaN"
| "py_atan2 PInf PInf = Fin (pi / 4)"
| "py_atan2 NInf PInf = Fin (- (pi / 4))"
| "py_atan2 PInf NInf = Fin (3 * pi / 4)"
| "py_atan2 NInf NInf = Fin (- (3 * pi / 4))"
| "py_atan2 PInf (Fin x) = Fin (pi / 2)"
| "py_atan2 NInf (Fin x) = Fin (- (pi / 2))"
| "py_atan2 (Fin y) PInf = Fin 0"
| "py_atan2 (Fin y) NInf = Fin (if y < 0 then - pi else pi)"

text \<open>
  The built-in \<open>round\<close> with one argument returns an \<open>int\<close> and rounds a tie to the
  even neighbour; it raises \<open>ValueError\<close> on NaN and \<open>OverflowError\<close> on an
  infinity.
\<close>

definition round_half_even :: "real \<Rightarrow> int" where
  "round_half_even x =
     (let f = \<lfloor>x\<rfloor>; r = x - of_int f
      in if r < 1 / 2 then f
         else if 1 / 2 < r then f + 1
         else if even f then f else f + 1)"

fun py_round :: "pyfloat \<Rightarrow> error + int" where
  "py_round (Fin x) = Inr (round_half_even x)"
| "py_round NaN = Inl ValueError"
| "py_round PInf = Inl OverflowError"
| "py_round NInf = Inl OverflowError"

section \<open>Haversine distance\<close>

text \<open>
  \<open>haversine_distance\<close> has the same body in \<open>tsp_converter.py\<close> and in
  \<open>visualize_tour.py\<close>; the two differ in the module constant
  \<open>EARTH_RADIUS_KM\<close> only, which is the first argument here.
\<close>

definition EARTH_RADIUS_KM :: real where
  "EARTH_RADIUS_KM = 6371.008"


definition haversine_body ::
  "real \<Rightarrow> pyfloat \<Rightarrow> pyfloat \<Rightarrow> pyfloat \<Rightarrow> pyfloat \<Rightarrow> error + pyfloat" where
  "haversine_body radius lat1 lon1 lat2 lon2 =
     (let lat1_rad = radians lat1;
          lat2_rad = radians lat2;
          delta_lat = radians (fsub lat2 lat1);
          delta_lon = radians (fsub lon2 lon1)
      in bind (py_sin (fhalf delta_lat)) (\<lambda>s1.
         bind (py_cos lat1_rad) (\<lambda>c1.
         bind (py_cos lat2_rad) (\<lambda>c2.
         bind (py_sin (fhalf delta_lon)) (\<lambda>s2.
         let a = fadd (fsquare s1) (fmul (fmul c1 c2) (fsquare s2))
         in bind (py_sqrt a) (\<lambda>sa.
            bind (py_sqrt (fsub (Fin 1) a)) (\<lambda>sb.
            let c = fmul (Fin 2) (py_atan2 sa sb)
            in Inr (fmul (Fin radius) c))))))))"

definition haversine_distance ::
  "pyfloat \<Rightarrow> pyfloat \<Rightarrow> pyfloat \<Rightarrow> pyfloat \<Rightarrow> error + pyfloat" where
  "haversine_distance = haversine_body EARTH_RADIUS_KM"


text \<open>
  The haversine formula over the reals, for reference: the quantity \<open>a\<close> and the
  great-circle distance on a sphere of the given radius, coordinates in degrees.
\<close>

definition hav_a :: "real \<Rightarrow> real \<Rightarrow> real \<Rightarrow> real \<Rightarrow> real" where
  "hav_a lat1 lon1 lat2 lon2 =
     sin ((lat2 - lat1) * (pi / 180) * (1 / 2)) * sin ((lat2 - lat1) * (pi / 180) * (1 / 2))
     + cos (lat1 * (pi / 180)) * cos (lat2 * (pi / 180))
       * (sin ((lon2 - lon1) * (pi / 180) * (1 / 2)) * sin ((lon2 - lon1) * (pi / 180) * (1 / 2)))"

definition haversine_km :: "real \<Rightarrow> real \<Rightarrow> real \<Rightarrow> real \<Rightarrow> real \<Rightarrow> real" where
  "haversine_km radius lat1 lon1 lat2 lon2 =
     radius * (2 * atan2 (sqrt (hav_a lat1 lon1 lat2 lon2)) (sqrt (1 - hav_a lat1 lon1 lat2 lon2)))"


section \<open>The dataset\<close>

text \<open>
  A loaded data frame, reduced to the three columns the pipeline uses: one row per
  point, in file order, with the identifier, latitude and longitude columns already
  resolved.
\<close>

record row =
  row_id :: string
  row_lat :: pyfloat
  row_lon :: pyfloat

definition finite_row :: "row \<Rightarrow> bool" where
  "finite_row r = (is_finite (row_lat r) \<and> is_finite (row_lon r))"

fun coord :: "pyfloat \<Rightarrow> real" where
  "coord (Fin x) = x"
| "coord PInf = 0"
| "coord NInf = 0"
| "coord NaN = 0"

text \<open>
  \<open>df.iloc[idx]\<close>: a negative position counts from the end, a position out of bounds
  raises \<open>IndexError\<close>.
\<close>

definition iloc :: "row list \<Rightarrow> int \<Rightarrow> error + row" where
  "iloc df idx =
     (let n = int (length df)
      in if - n \<le> idx \<and> idx < n then Inr (df ! nat (if idx < 0 then idx + n else idx))
         else Inl IndexError)"

section \<open>Distance matrix (\<open>ExcelToTSPConverter.compute_distance_matrix\<close>)\<close>

type_synonym matrix = "int list list"

definition zeros :: "nat \<Rightarrow> matrix" where
  "zeros n = replicate n (replicate n 0)"

text \<open>
  Storing a Python \<open>int\<close> into an \<open>int64\<close> array raises \<open>OverflowError\<close> when the
  value does not fit.
\<close>

definition setitem :: "matrix \<Rightarrow> nat \<Rightarrow> nat \<Rightarrow> int \<Rightarrow> error + matrix" where
  "setitem m i j v =
     (if - (2 ^ 63) \<le> v \<and> v < 2 ^ 63 then Inr (m[i := (m ! i)[j := v]])
      else Inl OverflowError)"

text \<open>\<open>int(round(dist * self.scale))\<close>\<close>

definition scaled_dist :: "pyfloat \<Rightarrow> int \<Rightarrow> error + int" where
  "scaled_dist d scale = py_round (fmul d (Fin (of_int scale)))"

text \<open>The body of the inner loop, \<open>for j in range(i + 1, n)\<close>, over the remaining \<open>j\<close>.\<close>

fun inner_loop ::
  "pyfloat list \<Rightarrow> pyfloat list \<Rightarrow> int \<Rightarrow> nat \<Rightarrow> nat list \<Rightarrow> matrix \<Rightarrow> error + matrix" where
  "inner_loop lats lons scale i [] m = Inr m"
| "inner_loop lats lons scale i (j # js) m =
     bind (haversine_distance (lats ! i) (lons ! i) (lats ! j) (lons ! j)) (\<lambda>d.
     bind (scaled_dist d scale) (\<lambda>sd.
     bind (setitem m i j sd) (\<lambda>m1.
     bind (setitem m1 j i sd) (\<lambda>m2.
     inner_loop lats lons scale i js m2))))"

text \<open>The outer loop, \<open>for i in range(n)\<close>, over the remaining \<open>i\<close>.\<close>

fun outer_loop ::
  "pyfloat list \<Rightarrow> pyfloat list \<Rightarrow> int \<Rightarrow> nat \<Rightarrow> nat list \<Rightarrow> matrix \<Rightarrow> error + matrix" where
  "outer_loop lats lons scale n [] m = Inr m"
| "outer_loop lats lons scale n (i # is) m =
     bind (inner_loop lats lons scale i [Suc i..<n] m) (\<lambda>m1.
     outer_loop lats lons scale n is m1)"

definition compute_distance_matrix :: "row list \<Rightarrow> int \<Rightarrow> error + matrix" where
  "compute_distance_matrix df scale =
     (let n = length df;
          lats = map row_lat df;
          lons = map row_lon df
      in outer_loop lats lons scale n [0..<n] (zeros n))"

section \<open>Strings\<close>

text \<open>
  Strings are ASCII.  \<open>str.strip()\<close> removes leading and trailing whitespace;
  \<open>int(s)\<close> accepts, after stripping, an optional sign and decimal digits with single
  underscores between digits, and raises \<open>ValueError\<close> (here \<open>None\<close>) otherwise.
\<close>

definition newline :: char where
  "newline = CHR 0x0A"

definition is_space :: "char \<Rightarrow> bool" where
  "is_space c = (c \<in> set [CHR 0x09, CHR 0x0A, CHR 0x0B, CHR 0x0C, CHR 0x0D,
                            CHR 0x1C, CHR 0x1D, CHR 0x1E, CHR 0x1F, CHR '' ''])"

definition strip :: "string \<Rightarrow> string" where
  "strip s = rev (dropWhile is_space (rev (dropWhile is_space s)))"

definition is_digit :: "char \<Rightarrow> bool" where
  "is_digit c = (c \<in> set ''0123456789'')"

definition digit_val :: "char \<Rightarrow> nat" where
  "digit_val c = (case map_of (zip ''0123456789'' [0, 1, 2, 3, 4, 5, 6, 7, 8, 9]) c of
                    Some d \<Rightarrow> d | None \<Rightarrow> 0)"

fun int_digits :: "string \<Rightarrow> nat \<Rightarrow> nat option" where
  "int_digits [] acc = Some acc"
| "int_digits [c] acc = (if is_digit c then Some (10 * acc + digit_val c) else None)"
| "int_digits (c # d # cs) acc =
     (if is_digit c then int_digits (d # cs) (10 * acc + digit_val c)
      else if c = CHR ''_'' \<and> is_digit d then int_digits cs (10 * acc + digit_val d)
      else None)"

definition py_nat :: "string \<Rightarrow> nat option" where
  "py_nat s = (case s of [] \<Rightarrow> None
               | c # cs \<Rightarrow> if is_digit c then int_digits cs (digit_val c) else None)"

definition py_int :: "string \<Rightarrow> int option" where
  "py_int s =
     (case strip s of
        [] \<Rightarrow> None
      | c # cs \<Rightarrow>
          if c = CHR ''-'' then map_option (\<lambda>n. - int n) (py_nat cs)
          else if c = CHR ''+'' then map_option int (py_nat cs)
          else map_option int (py_nat (c # cs)))"

text \<open>\<open>str(i)\<close> of an \<open>int\<close>, as an f-string renders it.\<close>

definition digit_char :: "nat \<Rightarrow> char" where
  "digit_char d = ''0123456789'' ! d"

fun str_nat :: "nat \<Rightarrow> string" where
  "str_nat n = (if n < 10 then [digit_char n] else str_nat (n div 10) @ [digit_char (n mod 10)])"

declare str_nat.simps [simp del]

definition str_int :: "int \<Rightarrow> string" where
  "str_int i = (if i < 0 then CHR ''-'' # str_nat (nat (- i)) else str_nat (nat i))"

definition startswith :: "string \<Rightarrow> string \<Rightarrow> bool" where
  "startswith s p = (take (length p) s = p)"

text \<open>\<open>s.split('=')[1]\<close> for an \<open>s\<close> that contains \<open>=\<close>.\<close>

definition split_eq_1 :: "string \<Rightarrow> string" where
  "split_eq_1 s = takeWhile (\<lambda>c. c \<noteq> CHR ''='') (tl (dropWhile (\<lambda>c. c \<noteq> CHR ''='') s))"

definition lower_char :: "char \<Rightarrow> char" where
  "lower_char c = (case map_of (zip ''ABCDEFGHIJKLMNOPQRSTUVWXYZ'' ''abcdefghijklmnopqrstuvwxyz'') c of
                     Some d \<Rightarrow> d | None \<Rightarrow> c)"

definition lower :: "string \<Rightarrow> string" where
  "lower s = map lower_char s"

text \<open>The lines a text file yields when iterated: each keeps its line feed.\<close>

fun readlines_acc :: "string \<Rightarrow> string \<Rightarrow> string list" where
  "readlines_acc [] cur = (if cur = [] then [] else [cur])"
| "readlines_acc (c # cs) cur =
     (if c = newline then (cur @ [c]) # readlines_acc cs [] else readlines_acc cs (cur @ [c]))"

definition readlines :: "string \<Rightarrow> string list" where
  "readlines body = readlines_acc body []"

section \<open>Tour files (\<open>TourToExcelConverter._parse_tour\<close>, \<open>parse_tour_file\<close>)\<close>

text \<open>
  The loop \<open>for line in f\<close> of \<open>_parse_tour\<close> over the remaining lines, with the
  flag \<open>in_tour_section\<close> and the list \<open>tour_order\<close> collected so far; \<open>break\<close>
  returns what has been collected.
\<close>

fun parse_tour_loop :: "string list \<Rightarrow> bool \<Rightarrow> int list \<Rightarrow> int list" where
  "parse_tour_loop [] in_tour_section tour_order = tour_order"
| "parse_tour_loop (raw # rest) in_tour_section tour_order =
     (let line = strip raw
      in if line = ''TOUR_SECTION'' then parse_tour_loop rest True tour_order
         else if line \<in> set [''-1'', ''EOF'', ''''] then
           (if in_tour_section \<and> tour_order \<noteq> [] then tour_order
            else parse_tour_loop rest in_tour_section tour_order)
         else if in_tour_section then
           (case py_int line of
              Some node_id \<Rightarrow> parse_tour_loop rest in_tour_section (tour_order @ [node_id])
            | None \<Rightarrow> parse_tour_loop rest in_tour_section tour_order)
         else parse_tour_loop rest in_tour_section tour_order)"

text \<open>
  The tour file is \<open>None\<close> when it does not exist, and \<open>open\<close> raises; otherwise it is
  the list of its lines.
\<close>

definition parse_tour :: "string list option \<Rightarrow> error + int list" where
  "parse_tour tour_file =
     (case tour_file of
        None \<Rightarrow> Inl FileNotFoundError
      | Some lines \<Rightarrow> Inr (parse_tour_loop lines False []))"

text \<open>
  \<open>parse_tour_file\<close> of \<open>visualize_tour.py\<close> has the same loop and also records the
  length that a \<open>COMMENT : Length = ...\<close> line announces.
\<close>

fun parse_tour_file_loop ::
  "string list \<Rightarrow> bool \<Rightarrow> int list \<Rightarrow> int option \<Rightarrow> int list \<times> int option" where
  "parse_tour_file_loop [] in_tour_section tour_order tour_length = (tour_order, tour_length)"
| "parse_tour_file_loop (raw # rest) in_tour_section tour_order tour_length =
     (let line = strip raw;
          tour_length1 =
            (if startswith line ''COMMENT : Length ='' then
               (case py_int (strip (split_eq_1 line)) of
                  Some v \<Rightarrow> Some v
                | None \<Rightarrow> tour_length)
             else tour_length)
      in if line = ''TOUR_SECTION'' then parse_tour_file_loop rest True tour_order tour_length1
         else if line \<in> set [''-1'', ''EOF'', ''''] then
           (if in_tour_section \<and> tour_order \<noteq> [] then (tour_order, tour_length1)
            else parse_tour_file_loop rest in_tour_section tour_order tour_length1)
         else if in_tour_section then
           (case py_int line of
              Some node_id \<Rightarrow>
                parse_tour_file_loop rest in_tour_section (tour_order @ [node_id]) tour_length1
            | None \<Rightarrow> parse_tour_file_loop rest in_tour_section tour_order tour_length1)
         else parse_tour_file_loop rest in_tour_section tour_order tour_length1)"

definition parse_tour_file :: "string list option \<Rightarrow> error + int list \<times> int option" where
  "parse_tour_file tour_file =
     (case tour_file of
        None \<Rightarrow> Inl FileNotFoundError
      | Some lines \<Rightarrow> Inr (parse_tour_file_loop lines False [] None))"

text \<open>
  The order as the specification words it: among the stripped lines after the first
  \<open>TOUR_SECTION\<close> line, start at the first line that yields a node id, stop before the
  first terminator line after it, and keep the lines that yield a node id.
\<close>

definition is_terminator :: "string \<Rightarrow> bool" where
  "is_terminator l = (l = ''-1'' \<or> l = ''EOF'' \<or> l = '''')"

definition is_node_line :: "string \<Rightarrow> bool" where
  "is_node_line l = (\<not> is_terminator l \<and> py_int l \<noteq> None)"

definition after_tour_section :: "string list \<Rightarrow> string list" where
  "after_tour_section ls = drop 1 (dropWhile (\<lambda>l. l \<noteq> ''TOUR_SECTION'') ls)"

definition spec_tour_order :: "string list \<Rightarrow> int list" where
  "spec_tour_order raw_lines =
     (let body = after_tour_section (map strip raw_lines);
          started = dropWhile (\<lambda>l. \<not> is_node_line l) body
      in map (\<lambda>l. the (py_int l))
           (filter is_node_line (takeWhile (\<lambda>l. \<not> is_terminator l) started)))"

section \<open>Reconciliation (\<open>TourToExcelConverter.generate_output\<close>)\<close>

text \<open>
  The loop over \<open>enumerate(self.tour_order, start=1)\<close> that fills the column
  \<open>visiting_order\<close>, initially all \<open>0\<close>.
\<close>

fun assign_loop :: "nat \<Rightarrow> (nat \<times> int) list \<Rightarrow> int list \<Rightarrow> int list" where
  "assign_loop n [] col = col"
| "assign_loop n ((visit_position, node_id) # rest) col =
     (let idx = node_id - 1
      in if 0 \<le> idx \<and> idx < int n then assign_loop n rest (col[nat idx := int visit_position])
         else assign_loop n rest col)"

text \<open>
  What \<open>generate_output\<close> writes: the column \<open>visiting_order\<close> in file order of the
  rows, and the response table of identifier and visiting order, which is taken from the
  unsorted frame.  The order of the rows in the sorted sheet is left out.
\<close>

record output_tables =
  visiting_order :: "int list"
  response :: "(string \<times> int) list"

definition generate_output :: "row list \<Rightarrow> int list \<Rightarrow> error + output_tables" where
  "generate_output original_df tour_order =
     (let n = length original_df;
          col = assign_loop n (enumerate 1 tour_order) (replicate n 0)
      in Inr \<lparr>visiting_order = col, response = zip (map row_id original_df) col\<rparr>)"

text \<open>
  The visiting order of row \<open>k\<close> in closed form: the last 1-based position at which the
  tour names node \<open>k + 1\<close>, and \<open>0\<close> when it never does.
\<close>

definition visit_position_of :: "int list \<Rightarrow> nat \<Rightarrow> int" where
  "visit_position_of tour_order k =
     (case filter (\<lambda>(p, node_id). node_id = int k + 1) (enumerate 1 tour_order) of
        [] \<Rightarrow> 0
      | x # xs \<Rightarrow> int (fst (last (x # xs))))"

section \<open>Parameter files (\<open>generate_par_file\<close>, \<open>_create_par_file\<close>)\<close>

text \<open>
  Each file is the list of the strings written, one \<open>f.write\<close> per element.  The
  default tour file of \<open>generate_par_file\<close> is the output path with its extension
  replaced; \<open>splitext_root\<close> stands for \<open>os.path.splitext(...)[0]\<close>.
\<close>

definition generate_par_file ::
  "(string \<Rightarrow> string) \<Rightarrow> string \<Rightarrow> string \<Rightarrow> int \<Rightarrow> int \<Rightarrow> int \<Rightarrow> int \<Rightarrow> string option \<Rightarrow> string list" where
  "generate_par_file splitext_root output_path tsp_path runs move_type population_size max_trials tour_file =
     (let tour_file1 = (case tour_file of None \<Rightarrow> splitext_root output_path @ ''.tour'' | Some t \<Rightarrow> t)
      in [''PROBLEM_FILE = '' @ tsp_path @ [newline],
          ''MOVE_TYPE = '' @ str_int move_type @ [newline],
          ''PATCHING_C = 3'' @ [newline],
          ''PATCHING_A = 2'' @ [newline],
          ''RUNS = '' @ str_int runs @ [newline],
          ''MAX_TRIALS = '' @ str_int max_trials @ [newline]]
         @ (if population_size > 1 then
              [''POPULATION_SIZE = '' @ str_int population_size @ [newline],
               ''RECOMBINATION = CLARIST'' @ [newline]]
            else [])
         @ [''TOUR_FILE = '' @ tour_file1 @ [newline]])"

record lkh_params =
  MOVE_TYPE :: int
  PATCHING_C :: int
  PATCHING_A :: int
  RUNS :: int
  MAX_TRIALS :: int
  POPULATION_SIZE :: int
  RECOMBINATION :: string
  SCALE :: int

definition create_par_file :: "string \<Rightarrow> string \<Rightarrow> lkh_params \<Rightarrow> string list" where
  "create_par_file tsp_path tour_path params =
     [''PROBLEM_FILE = '' @ tsp_path @ [newline],
      ''MOVE_TYPE = '' @ str_int (MOVE_TYPE params) @ [newline],
      ''PATCHING_C = '' @ str_int (PATCHING_C params) @ [newline],
      ''PATCHING_A = '' @ str_int (PATCHING_A params) @ [newline],
      ''RUNS = '' @ str_int (RUNS params) @ [newline],
      ''MAX_TRIALS = '' @ str_int (MAX_TRIALS params) @ [newline]]
     @ (if POPULATION_SIZE params > 1 then
          [''POPULATION_SIZE = '' @ str_int (POPULATION_SIZE params) @ [newline],
           ''RECOMBINATION = '' @ RECOMBINATION params @ [newline]]
        else [])
     @ [''TOUR_FILE = '' @ tour_path @ [newline]]"

text \<open>A \<open>KEY = VALUE\<close> line, and the key of a line: the text before its first space.\<close>

definition par_line :: "string \<Rightarrow> string \<Rightarrow> string" where
  "par_line k v = k @ '' = '' @ v @ [newline]"

definition par_key :: "string \<Rightarrow> string" where
  "par_key l = takeWhile (\<lambda>c. c \<noteq> CHR '' '') l"

section \<open>Tour distance (\<open>LKHVisionSolver._calculate_distance\<close>, \<open>create_tour_map\<close>)\<close>

text \<open>
  The loop \<open>for i in range(len(tour_order))\<close> of \<open>_calculate_distance\<close> over the
  remaining \<open>i\<close>, with the running \<open>total\<close>.
\<close>

fun calculate_distance_loop ::
  "row list \<Rightarrow> int list \<Rightarrow> nat list \<Rightarrow> pyfloat \<Rightarrow> error + pyfloat" where
  "calculate_distance_loop df tour_order [] total_km = Inr total_km"
| "calculate_distance_loop df tour_order (i # is) total_km =
     (let idx1 = tour_order ! i - 1;
          idx2 = tour_order ! ((i + 1) mod length tour_order) - 1
      in bind (iloc df idx1) (\<lambda>r1.
         bind (iloc df idx2) (\<lambda>r2.
         bind (haversine_distance (row_lat r1) (row_lon r1) (row_lat r2) (row_lon r2)) (\<lambda>d.
         calculate_distance_loop df tour_order is (fadd total_km d)))))"

definition calculate_distance :: "row list \<Rightarrow> int list \<Rightarrow> error + pyfloat" where
  "calculate_distance df tour_order =
     calculate_distance_loop df tour_order [0..<length tour_order] (Fin 0)"




text \<open>
  The closed loop through a list of points over the reals, for reference: the sum over
  adjacent points plus the edge from the last point back to the first.
\<close>

definition edge_km :: "real \<Rightarrow> real \<times> real \<Rightarrow> real \<times> real \<Rightarrow> real" where
  "edge_km radius p q = haversine_km radius (fst p) (snd p) (fst q) (snd q)"

definition closed_loop_km :: "real \<Rightarrow> (real \<times> real) list \<Rightarrow> real" where
  "closed_loop_km radius ps =
     (if ps = [] then 0
      else (\<Sum>(p, q) \<leftarrow> zip ps (tl ps). edge_km radius p q) + edge_km radius (last ps) (hd ps))"

definition point_of :: "row list \<Rightarrow> int \<Rightarrow> real \<times> real" where
  "point_of df node_id = (coord (row_lat (df ! nat (node_id - 1))), coord (row_lon (df ! nat (node_id - 1))))"

section \<open>The pipeline (\<open>LKHVisionSolver._run_optimization\<close>)\<close>

text \<open>
  What a run meets outside the program: the dataset, the parameters, whether the solver
  executable can be started, the exit status \<open>process.wait()\<close> returns, the tour file
  as it is after the solver has ended, and the value of \<open>is_running\<close> at the two places
  where the run reads it.  Logging and the progress bar are left out.
\<close>

record run_env =
  env_df :: "row list"
  env_params :: lkh_params
  env_running_after_convert :: bool
  env_exe_present :: bool
  env_exit_status :: int
  env_tour_file :: "string list option"
  env_running_after_lkh :: bool

datatype stage = ConvertToTSP | CreateParFile | RunLKH | Reconcile | CalculateDistance | GenerateMap

datatype outcome = Completed output_tables pyfloat | Returned | Failed error

text \<open>
  \<open>_run_lkh\<close> starts the process, which raises when the executable is missing, reads
  its output and waits for it; the exit status is not looked at.
\<close>

definition run_lkh :: "run_env \<Rightarrow> error + unit" where
  "run_lkh env = (if env_exe_present env then Inr () else Inl FileNotFoundError)"

text \<open>
  The run gives the stages it entered, in order, and how it ended: completed with the
  tables and the total distance, returned early because \<open>is_running\<close> was cleared, or
  the exception that the \<open>except\<close> clause reports.
\<close>

definition run_optimization :: "run_env \<Rightarrow> stage list \<times> outcome" where
  "run_optimization env =
     (case compute_distance_matrix (env_df env) (SCALE (env_params env)) of
        Inl e \<Rightarrow> ([ConvertToTSP], Failed e)
      | Inr m \<Rightarrow>
          if \<not> env_running_after_convert env then ([ConvertToTSP], Returned)
          else
            (case run_lkh env of
               Inl e \<Rightarrow> ([ConvertToTSP, CreateParFile, RunLKH], Failed e)
             | Inr u \<Rightarrow>
                 if \<not> env_running_after_lkh env then ([ConvertToTSP, CreateParFile, RunLKH], Returned)
                 else
                   (case parse_tour (env_tour_file env) of
                      Inl e \<Rightarrow> ([ConvertToTSP, CreateParFile, RunLKH, Reconcile], Failed e)
                    | Inr tour_order \<Rightarrow>
                        (case generate_output (env_df env) tour_order of
                           Inl e \<Rightarrow> ([ConvertToTSP, CreateParFile, RunLKH, Reconcile], Failed e)
                         | Inr tables \<Rightarrow>
                             (case calculate_distance (env_df env) tour_order of
                                Inl e \<Rightarrow>
                                  ([ConvertToTSP, CreateParFile, RunLKH, Reconcile, CalculateDistance],
                                   Failed e)
                              | Inr total_km \<Rightarrow>
                                  ([ConvertToTSP, CreateParFile, RunLKH, Reconcile, CalculateDistance,
                                    GenerateMap],
                                   Completed tables total_km))))))"

section \<open>Column detection (\<open>detect_columns\<close>)\<close>

text \<open>
  \<open>columns_lower\<close> maps the lower-cased name of each column to the column; of two
  columns with the same lower-cased name the later one stays.  Each pattern list is
  searched in order for the first pattern that is a key.
\<close>

definition columns_lower :: "string list \<Rightarrow> string \<Rightarrow> string option" where
  "columns_lower columns = map_of (rev (map (\<lambda>col. (lower col, col)) columns))"

fun first_pattern :: "string list \<Rightarrow> (string \<Rightarrow> string option) \<Rightarrow> string option" where
  "first_pattern [] m = None"
| "first_pattern (pattern # patterns) m =
     (case m pattern of Some col \<Rightarrow> Some col | None \<Rightarrow> first_pattern patterns m)"

definition lat_patterns :: "string list" where
  "lat_patterns = [''latitude'', ''lat'', ''y'', ''coord_y'', ''lat_deg'']"

definition lon_patterns :: "string list" where
  "lon_patterns = [''longitude'', ''lon'', ''long'', ''x'', ''coord_x'', ''lon_deg'', ''lng'']"

definition id_patterns :: "string list" where
  "id_patterns = [''id'', ''commune'', ''name'', ''city'', ''node'', ''point'', ''index'']"

text \<open>The result is \<open>(id_col, lat_col, lon_col)\<close>, each \<open>None\<close> when nothing was found.\<close>

definition detect_columns :: "string list \<Rightarrow> string option \<times> string option \<times> string option" where
  "detect_columns columns =
     (let m = columns_lower columns;
          lat_col = first_pattern lat_patterns m;
          lon_col = first_pattern lon_patterns m;
          id_col = first_pattern id_patterns m;
          id_col1 = (if id_col = None \<and> length columns > 0 then Some (columns ! 0) else id_col)
      in (id_col1, lat_col, lon_col))"

definition example_tour_body :: string where
  "example_tour_body =
     ''TOUR_SECTION'' @ [newline] @ ''1'' @ [newline] @ ''3'' @ [newline] @ ''2'' @ [newline]
     @ ''4'' @ [newline] @ ''-1'' @ [newline] @ ''EOF'' @ [newline]"

text \<open>
  The value the loop body computes for the pair \<open>(i, j)\<close> before it stores it.
\<close>

definition pair_entry :: "pyfloat list \<Rightarrow> pyfloat list \<Rightarrow> int \<Rightarrow> nat \<Rightarrow> nat \<Rightarrow> error + int" where
  "pair_entry lats lons scale i j =
     bind (haversine_distance (lats ! i) (lons ! i) (lats ! j) (lons ! j)) (\<lambda>d. scaled_dist d scale)"


definition fits_int64 :: "int \<Rightarrow> bool" where
  "fits_int64 v = (- (2 ^ 63) \<le> v \<and> v < 2 ^ 63)"

text \<open>
  A computation that raises or yields NaN.
\<close>

definition raises_or_nan :: "error + pyfloat \<Rightarrow> bool" where
  "raises_or_nan r = (case r of Inl e \<Rightarrow> True | Inr d \<Rightarrow> d = NaN)"

text \<open>
  The haversine distance between two rows on the sphere of \<open>tsp_converter.py\<close>.
\<close>

definition row_km :: "row \<Rightarrow> row \<Rightarrow> real" where
  "row_km r1 r2 =
     haversine_km EARTH_RADIUS_KM (coord (row_lat r1)) (coord (row_lon r1))
       (coord (row_lat r2)) (coord (row_lon r2))"

text \<open>
  Example data: two points on the meridian of Greenwich, half a kilometre apart, and a row
  without finite coordinates.
\<close>

definition half_km_lat :: real where
  "half_km_lat = 90 / (pi * 6371.008)"

definition meridian_rows :: "row list" where
  "meridian_rows =
     [\<lparr>row_id = ''a'', row_lat = Fin 0, row_lon = Fin 0\<rparr>,
      \<lparr>row_id = ''b'', row_lat = Fin half_km_lat, row_lon = Fin 0\<rparr>]"

definition nan_row :: row where
  "nan_row = \<lparr>row_id = ''c'', row_lat = NaN, row_lon = PInf\<rparr>"

text \<open>
  A tour order all of whose node ids are in \<open>1..n\<close>, and the sum of the edges from the
  points at the given positions to their successors on the ring.
\<close>

definition valid_tour :: "row list \<Rightarrow> int list \<Rightarrow> bool" where
  "valid_tour df tour_order = (\<forall>node_id \<in> set tour_order. 1 \<le> node_id \<and> node_id \<le> int (length df))"

definition ring_km :: "real \<Rightarrow> (real \<times> real) list \<Rightarrow> nat list \<Rightarrow> real" where
  "ring_km radius ps is = (\<Sum>i \<leftarrow> is. edge_km radius (ps ! i) (ps ! ((i + 1) mod length ps)))"

text \<open>
  Example run: the solver has exited with status 1 and has left a complete tour file.
\<close>

definition failed_solver_env :: run_env where
  "failed_solver_env =
     \<lparr>env_df = meridian_rows,
      env_params = \<lparr>MOVE_TYPE = 5, PATCHING_C = 3, PATCHING_A = 2, RUNS = 10, MAX_TRIALS = 1000,
                     POPULATION_SIZE = 1, RECOMBINATION = ''IPT'', SCALE = 4\<rparr>,
      env_running_after_convert = True,
      env_exe_present = True,
      env_exit_status = 1,
      env_tour_file = Some [''TOUR_SECTION'', ''1'', ''2'', ''-1'', ''EOF''],
      env_running_after_lkh = True\<rparr>"

section \<open>Properties of the haversine formula\<close>

lemma hav_a_alt:
  fixes lat1 lat2 lon1 lon2 :: real
  defines "u \<equiv> lat1 * (pi / 180)" and "v \<equiv> lat2 * (pi / 180)"
    and "s \<equiv> sin ((lon2 - lon1) * (pi / 180) * (1 / 2)) * sin ((lon2 - lon1) * (pi / 180) * (1 / 2))"
  shows "2 * hav_a lat1 lon1 lat2 lon2 = 1 - (1 - s) * cos (u - v) + s * cos (u + v)"
proof -
  have e: "(lat2 - lat1) * (pi / 180) * (1 / 2) = (v - u) / 2"
    by (simp add: field_simps u_def v_def)
  have "sin ((v - u) / 2) * sin ((v - u) / 2) = (cos 0 - cos (v - u)) / 2"
    using sin_times_sin [of "(v - u) / 2" "(v - u) / 2"] by simp
  also have "cos (v - u) = cos (u - v)"
    using cos_minus [of "u - v"] by simp
  finally have s1: "sin ((v - u) / 2) * sin ((v - u) / 2) = (1 - cos (u - v)) / 2"
    by simp
  have c: "cos u * cos v = (cos (u - v) + cos (u + v)) / 2"
    by (rule cos_times_cos)
  have "hav_a lat1 lon1 lat2 lon2 = (1 - cos (u - v)) / 2 + (cos (u - v) + cos (u + v)) / 2 * s"
    unfolding hav_a_def e s1 using c by (simp add: u_def v_def s_def)
  then show ?thesis
    by (simp add: field_simps)
qed

lemma hav_a_nonneg: "0 \<le> hav_a lat1 lon1 lat2 lon2"
proof -
  define s where "s = sin ((lon2 - lon1) * (pi / 180) * (1 / 2)) * sin ((lon2 - lon1) * (pi / 180) * (1 / 2))"
  define cd where "cd = cos (lat1 * (pi / 180) - lat2 * (pi / 180))"
  define cs where "cs = cos (lat1 * (pi / 180) + lat2 * (pi / 180))"
  have eq: "2 * hav_a lat1 lon1 lat2 lon2 = 1 - (1 - s) * cd + s * cs"
    unfolding s_def cd_def cs_def by (rule hav_a_alt)
  have s0: "0 \<le> s" unfolding s_def by simp
  have "\<bar>sin ((lon2 - lon1) * (pi / 180) * (1 / 2))\<bar> \<le> 1" by simp
  then have s1: "s \<le> 1" unfolding s_def
    by (metis abs_mult mult_le_one abs_ge_zero abs_of_nonneg s0 s_def)
  have "cd \<le> 1" "- 1 \<le> cs" unfolding cd_def cs_def by simp_all
  then have "(1 - s) * cd \<le> (1 - s) * 1" "s * (- 1) \<le> s * cs"
    using s0 s1 by (simp_all only: mult_left_mono diff_ge_0_iff_ge)
  with eq show ?thesis by simp
qed

lemma hav_a_le_one: "hav_a lat1 lon1 lat2 lon2 \<le> 1"
proof -
  define s where "s = sin ((lon2 - lon1) * (pi / 180) * (1 / 2)) * sin ((lon2 - lon1) * (pi / 180) * (1 / 2))"
  define cd where "cd = cos (lat1 * (pi / 180) - lat2 * (pi / 180))"
  define cs where "cs = cos (lat1 * (pi / 180) + lat2 * (pi / 180))"
  have eq: "2 * hav_a lat1 lon1 lat2 lon2 = 1 - (1 - s) * cd + s * cs"
    unfolding s_def cd_def cs_def by (rule hav_a_alt)
  have s0: "0 \<le> s" unfolding s_def by simp
  have "\<bar>sin ((lon2 - lon1) * (pi / 180) * (1 / 2))\<bar> \<le> 1" by simp
  then have s1: "s \<le> 1" unfolding s_def
    by (metis abs_mult mult_le_one abs_ge_zero abs_of_nonneg s0 s_def)
  have "- 1 \<le> cd" "cs \<le> 1" unfolding cd_def cs_def by simp_all
  then have "(1 - s) * (- 1) \<le> (1 - s) * cd" "s * cs \<le> s * 1"
    using s0 s1 by (simp_all only: mult_left_mono diff_ge_0_iff_ge)
  with eq show ?thesis by simp
qed

lemma haversine_body_Fin:
  "haversine_body radius (Fin lat1) (Fin lon1) (Fin lat2) (Fin lon2)
     = Inr (Fin (haversine_km radius lat1 lon1 lat2 lon2))"
proof -
  have r: "radians (Fin x) = Fin (x * (pi / 180))" for x
    by (simp add: radians_def)
  have h: "fhalf (Fin x) = Fin (x * (1 / 2))" for x
    by (simp add: fhalf_def)
  have q: "fsquare (Fin x) = Fin (x * x)" for x
    by (simp add: fsquare_def)
  have d: "fsub (Fin x) (Fin y) = Fin (x - y)" for x y
    by (simp add: fsub_def)
  have b: "bind (Inr v) f = f v" for v :: pyfloat and f :: "pyfloat \<Rightarrow> error + pyfloat"
    by (simp add: bind_def)
  have s1: "py_sqrt (Fin (hav_a lat1 lon1 lat2 lon2)) = Inr (Fin (sqrt (hav_a lat1 lon1 lat2 lon2)))"
    using hav_a_nonneg [of lat1 lon1 lat2 lon2] by simp
  have s2: "py_sqrt (Fin (1 - hav_a lat1 lon1 lat2 lon2)) = Inr (Fin (sqrt (1 - hav_a lat1 lon1 lat2 lon2)))"
    using hav_a_le_one [of lat1 lon1 lat2 lon2] by simp
  show ?thesis
    unfolding haversine_body_def Let_def r h q d py_sin.simps py_cos.simps b fmul.simps fadd.simps
      hav_a_def [symmetric] s1 s2 py_atan2.simps haversine_km_def ..
qed

section \<open>Properties of the tour parsers\<close>

lemma py_int_TOUR_SECTION: "py_int ''TOUR_SECTION'' = None"
  by code_simp

lemma TOUR_SECTION_not_terminator: "\<not> is_terminator ''TOUR_SECTION''"
  by (simp add: is_terminator_def)

lemma TOUR_SECTION_not_node: "\<not> is_node_line ''TOUR_SECTION''"
  by (simp add: is_node_line_def py_int_TOUR_SECTION)

lemma terminator_mem: "l \<in> set [''-1'', ''EOF'', ''''] \<longleftrightarrow> is_terminator l"
  by (auto simp: is_terminator_def)

lemma parse_tour_loop_collecting:
  "tour_order \<noteq> [] \<Longrightarrow>
   parse_tour_loop ls True tour_order =
     tour_order @ map (\<lambda>l. the (py_int l))
       (filter is_node_line (takeWhile (\<lambda>l. \<not> is_terminator l) (map strip ls)))"
proof (induction ls arbitrary: tour_order)
  case Nil
  then show ?case by simp
next
  case (Cons raw rest)
  show ?case
  proof (cases "strip raw = ''TOUR_SECTION''")
    case True
    then show ?thesis
      using Cons.IH [OF Cons.prems] TOUR_SECTION_not_terminator TOUR_SECTION_not_node
      by simp
  next
    case nts: False
    show ?thesis
    proof (cases "is_terminator (strip raw)")
      case True
      then show ?thesis
        using nts Cons.prems by (simp add: terminator_mem del: set_simps)
    next
      case nt: False
      show ?thesis
      proof (cases "py_int (strip raw)")
        case None
        then have "\<not> is_node_line (strip raw)"
          by (simp add: is_node_line_def)
        then show ?thesis
          using nts nt None Cons.IH [OF Cons.prems]
          by (simp add: terminator_mem del: set_simps)
      next
        case (Some node_id)
        then have "is_node_line (strip raw)"
          using nt by (simp add: is_node_line_def)
        moreover have "tour_order @ [node_id] \<noteq> []" by simp
        ultimately show ?thesis
          using nts nt Some Cons.IH [of "tour_order @ [node_id]"]
          by (simp add: terminator_mem del: set_simps)
      qed
    qed
  qed
qed

lemma parse_tour_loop_in_section:
  "parse_tour_loop ls True [] =
     map (\<lambda>l. the (py_int l))
       (filter is_node_line
         (takeWhile (\<lambda>l. \<not> is_terminator l) (dropWhile (\<lambda>l. \<not> is_node_line l) (map strip ls))))"
proof (induction ls)
  case Nil
  then show ?case by simp
next
  case (Cons raw rest)
  show ?case
  proof (cases "strip raw = ''TOUR_SECTION''")
    case True
    then show ?thesis
      using Cons.IH TOUR_SECTION_not_node by simp
  next
    case nts: False
    show ?thesis
    proof (cases "is_terminator (strip raw)")
      case True
      then have "\<not> is_node_line (strip raw)"
        by (simp add: is_node_line_def)
      then show ?thesis
        using nts True Cons.IH by (simp add: terminator_mem del: set_simps)
    next
      case nt: False
      show ?thesis
      proof (cases "py_int (strip raw)")
        case None
        then have "\<not> is_node_line (strip raw)"
          by (simp add: is_node_line_def)
        then show ?thesis
          using nts nt None Cons.IH by (simp add: terminator_mem del: set_simps)
      next
        case (Some node_id)
        then have "is_node_line (strip raw)"
          using nt by (simp add: is_node_line_def)
        then show ?thesis
          using nts nt Some parse_tour_loop_collecting [of "[node_id]" rest]
          by (simp add: terminator_mem del: set_simps)
      qed
    qed
  qed
qed

lemma parse_tour_loop_before_section:
  "parse_tour_loop ls False [] =
     parse_tour_loop (drop 1 (dropWhile (\<lambda>raw. strip raw \<noteq> ''TOUR_SECTION'') ls)) True []"
proof (induction ls)
  case Nil
  then show ?case by simp
next
  case (Cons raw rest)
  then show ?case
    by (simp add: Let_def)
qed

lemma after_tour_section_map_strip:
  "after_tour_section (map strip ls) =
     map strip (drop 1 (dropWhile (\<lambda>raw. strip raw \<noteq> ''TOUR_SECTION'') ls))"
  by (simp add: after_tour_section_def dropWhile_map drop_map comp_def)

lemma parse_tour_loop_spec: "parse_tour_loop ls False [] = spec_tour_order ls"
  by (simp add: parse_tour_loop_before_section parse_tour_loop_in_section spec_tour_order_def
      after_tour_section_map_strip Let_def del: parse_tour_loop.simps)

lemma parse_tour_file_loop_order:
  "fst (parse_tour_file_loop ls in_sec tour_order tour_length) = parse_tour_loop ls in_sec tour_order"
proof (induction ls arbitrary: in_sec tour_order tour_length)
  case Nil
  then show ?case by simp
next
  case (Cons raw rest)
  then show ?case
    by (simp add: Let_def split: option.split del: set_simps)
qed

text \<open>
  Claim C3.  For every tour file that can be opened, the order both parsers return is
  the sequence of node ids of the integer lines (lines compared after \<open>strip()\<close>)
  that stand after the first \<open>TOUR_SECTION\<close> line and before the first line equal to
  \<open>-1\<close>, \<open>EOF\<close> or the empty line met once a node id has been collected; such
  lines met earlier, and lines that are no integers, are ignored.  For the file with body
  \<open>TOUR_SECTION\n1\n3\n2\n4\n-1\nEOF\n\<close> the order is \<open>[1, 3, 2, 4]\<close> and
  there is no length.
\<close>

theorem tour_parser_order:
  "parse_tour (Some lines) = Inr (spec_tour_order lines)
   \<and> (\<exists>tour_length. parse_tour_file (Some lines) = Inr (spec_tour_order lines, tour_length))
   \<and> parse_tour (Some (readlines example_tour_body)) = Inr [1, 3, 2, 4]
   \<and> parse_tour_file (Some (readlines example_tour_body)) = Inr ([1, 3, 2, 4], None)"
proof -
  have a: "parse_tour (Some lines) = Inr (spec_tour_order lines)"
    by (simp add: parse_tour_def parse_tour_loop_spec)
  have "fst (parse_tour_file_loop lines False [] None) = spec_tour_order lines"
    by (simp add: parse_tour_file_loop_order parse_tour_loop_spec)
  then have b: "\<exists>tour_length. parse_tour_file (Some lines) = Inr (spec_tour_order lines, tour_length)"
    by (cases "parse_tour_file_loop lines False [] None") (simp add: parse_tour_file_def)
  have c: "parse_tour (Some (readlines example_tour_body)) = Inr [1, 3, 2, 4]"
    by code_simp
  have d: "parse_tour_file (Some (readlines example_tour_body)) = Inr ([1, 3, 2, 4], None)"
    by code_simp
  from a b c d show ?thesis by blast
qed

theorem tour_parser_order_witness:
  "parse_tour (Some [''NAME : x'', ''TOUR_SECTION'', '''', ''-1'', ''2'', ''x'', ''1'', '''', ''3''])
     = Inr [2, 1]
   \<and> spec_tour_order [''NAME : x'', ''TOUR_SECTION'', '''', ''-1'', ''2'', ''x'', ''1'', '''', ''3'']
     = [2, 1]"
proof -
  have "spec_tour_order [''NAME : x'', ''TOUR_SECTION'', '''', ''-1'', ''2'', ''x'', ''1'', '''', ''3''] = [2, 1]"
    by code_simp
  then show ?thesis
    using tour_parser_order [of "[''NAME : x'', ''TOUR_SECTION'', '''', ''-1'', ''2'', ''x'', ''1'', '''', ''3'']"]
    by simp
qed






section \<open>Properties of reconciliation, parameter files and column detection\<close>

lemma assign_loop_length: "length (assign_loop n ps col) = length col"
  by (induction n ps col rule: assign_loop.induct) (simp_all add: Let_def)

lemma assign_loop_nth:
  "k < n \<Longrightarrow> length col = n \<Longrightarrow>
   assign_loop n ps col ! k =
     (case filter (\<lambda>(p, node_id). node_id = int k + 1) ps of
        [] \<Rightarrow> col ! k
      | x # xs \<Rightarrow> int (fst (last (x # xs))))"
proof (induction n ps col rule: assign_loop.induct)
  case (1 n col)
  then show ?case by simp
next
  case (2 n visit_position node_id rest col)
  show ?case
  proof (cases "0 \<le> node_id - 1 \<and> node_id - 1 < int n")
    case True
    then have ih: "assign_loop n rest (col[nat (node_id - 1) := int visit_position]) ! k =
        (case filter (\<lambda>(p, node_id). node_id = int k + 1) rest of
           [] \<Rightarrow> col[nat (node_id - 1) := int visit_position] ! k
         | x # xs \<Rightarrow> int (fst (last (x # xs))))"
      using "2.IH"(1) [OF refl True] "2.prems" by simp
    show ?thesis
    proof (cases "node_id = int k + 1")
      case eq: True
      then have "nat (node_id - 1) = k" by simp
      then show ?thesis
        using True eq ih "2.prems" by (simp add: Let_def split: list.split)
    next
      case ne: False
      then have "nat (node_id - 1) \<noteq> k" using True by auto
      then show ?thesis
        using True ne ih by (simp add: Let_def split: list.split)
    qed
  next
    case False
    then have ne: "node_id \<noteq> int k + 1" using "2.prems" by auto
    have step: "assign_loop n ((visit_position, node_id) # rest) col = assign_loop n rest col"
      using False by (auto simp: Let_def)
    have "assign_loop n rest col ! k =
        (case filter (\<lambda>(p, node_id). node_id = int k + 1) rest of
           [] \<Rightarrow> col ! k
         | x # xs \<Rightarrow> int (fst (last (x # xs))))"
      using "2.IH"(2) [OF refl False] "2.prems" by simp
    then show ?thesis
      unfolding step using ne by simp
  qed
qed

text \<open>
  Claim C6, as the code has it.  \<open>generate_output\<close> raises nothing for any tour
  order: a node id outside \<open>1..n\<close> is skipped by the guard \<open>0 <= idx < n\<close>
  (its position still counts), and row \<open>k\<close> gets the last position at which the
  tour names node \<open>k + 1\<close>, or \<open>0\<close> when it never does.
\<close>

theorem generate_output_no_validation:
  "\<exists>tables. generate_output original_df tour_order = Inr tables
     \<and> visiting_order tables = map (visit_position_of tour_order) [0..<length original_df]
     \<and> response tables = zip (map row_id original_df) (visiting_order tables)"
proof -
  let ?n = "length original_df"
  let ?col = "assign_loop ?n (enumerate 1 tour_order) (replicate ?n 0)"
  have "?col = map (visit_position_of tour_order) [0..<?n]"
  proof (rule nth_equalityI)
    show "length ?col = length (map (visit_position_of tour_order) [0..<?n])"
      by (simp add: assign_loop_length)
  next
    fix k assume "k < length ?col"
    then have k: "k < ?n" by (simp add: assign_loop_length)
    then show "?col ! k = map (visit_position_of tour_order) [0..<?n] ! k"
      using assign_loop_nth [of k ?n "replicate ?n 0" "enumerate 1 tour_order"]
      by (simp add: visit_position_of_def split: list.split)
  qed
  then show ?thesis
    by (simp add: generate_output_def Let_def)
qed

text \<open>
  With two rows, the tour order \<open>[1, 5]\<close> names node 5; the tables are produced
  all the same, and the second row keeps visiting order 0.
\<close>

theorem generate_output_counterexample:
  "generate_output
     [\<lparr>row_id = ''a'', row_lat = Fin 0, row_lon = Fin 0\<rparr>,
      \<lparr>row_id = ''b'', row_lat = Fin 0, row_lon = Fin 1\<rparr>] [1, 5]
   = Inr \<lparr>visiting_order = [1, 0], response = [(''a'', 1), (''b'', 0)]\<rparr>"
  by (simp add: generate_output_def enumerate_eq_zip upt_rec)

theorem generate_output_no_validation_witness:
  "generate_output
     [\<lparr>row_id = ''a'', row_lat = Fin 0, row_lon = Fin 0\<rparr>,
      \<lparr>row_id = ''b'', row_lat = Fin 0, row_lon = Fin 1\<rparr>] [2, 0, 2, 3]
   = Inr \<lparr>visiting_order = [0, 3], response = [(''a'', 0), (''b'', 3)]\<rparr>"
proof -
  let ?df = "[\<lparr>row_id = ''a'', row_lat = Fin 0, row_lon = Fin 0\<rparr>,
              \<lparr>row_id = ''b'', row_lat = Fin 0, row_lon = Fin 1\<rparr>]"
  have v: "map (visit_position_of [2, 0, 2, 3]) [0..<length ?df] = [0, 3]"
    by code_simp
  obtain tables where t: "generate_output ?df [2, 0, 2, 3] = Inr tables"
    and o: "visiting_order tables = map (visit_position_of [2, 0, 2, 3]) [0..<length ?df]"
    and r: "response tables = zip (map row_id ?df) (visiting_order tables)"
    using generate_output_no_validation [of ?df "[2, 0, 2, 3]"] by blast
  have "tables = \<lparr>visiting_order = [0, 3], response = [(''a'', 0), (''b'', 3)]\<rparr>"
    using o r unfolding v by simp
  with t show ?thesis by simp
qed

text \<open>
  Claim C7.  Both parameter files consist of \<open>KEY = VALUE\<close> lines in the order
  \<open>PROBLEM_FILE\<close>, \<open>MOVE_TYPE\<close>, \<open>PATCHING_C\<close>, \<open>PATCHING_A\<close>,
  \<open>RUNS\<close>, \<open>MAX_TRIALS\<close>, then \<open>POPULATION_SIZE\<close> and
  \<open>RECOMBINATION\<close> exactly when the population size is greater than 1, then
  \<open>TOUR_FILE\<close> last.
\<close>

theorem par_file_order:
  "create_par_file tsp_path tour_path params =
     [par_line ''PROBLEM_FILE'' tsp_path,
      par_line ''MOVE_TYPE'' (str_int (MOVE_TYPE params)),
      par_line ''PATCHING_C'' (str_int (PATCHING_C params)),
      par_line ''PATCHING_A'' (str_int (PATCHING_A params)),
      par_line ''RUNS'' (str_int (RUNS params)),
      par_line ''MAX_TRIALS'' (str_int (MAX_TRIALS params))]
     @ (if 1 < POPULATION_SIZE params then
          [par_line ''POPULATION_SIZE'' (str_int (POPULATION_SIZE params)),
           par_line ''RECOMBINATION'' (RECOMBINATION params)]
        else [])
     @ [par_line ''TOUR_FILE'' tour_path]
   \<and> map par_key (create_par_file tsp_path tour_path params) =
       [''PROBLEM_FILE'', ''MOVE_TYPE'', ''PATCHING_C'', ''PATCHING_A'', ''RUNS'', ''MAX_TRIALS'']
       @ (if 1 < POPULATION_SIZE params then [''POPULATION_SIZE'', ''RECOMBINATION''] else [])
       @ [''TOUR_FILE'']
   \<and> generate_par_file splitext_root output_path tsp_path runs move_type population_size max_trials tour_file =
       [par_line ''PROBLEM_FILE'' tsp_path,
        par_line ''MOVE_TYPE'' (str_int move_type),
        par_line ''PATCHING_C'' ''3'',
        par_line ''PATCHING_A'' ''2'',
        par_line ''RUNS'' (str_int runs),
        par_line ''MAX_TRIALS'' (str_int max_trials)]
       @ (if 1 < population_size then
            [par_line ''POPULATION_SIZE'' (str_int population_size),
             par_line ''RECOMBINATION'' ''CLARIST'']
          else [])
       @ [par_line ''TOUR_FILE''
            (case tour_file of None \<Rightarrow> splitext_root output_path @ ''.tour'' | Some t \<Rightarrow> t)]
   \<and> map par_key (generate_par_file splitext_root output_path tsp_path runs move_type
         population_size max_trials tour_file) =
       [''PROBLEM_FILE'', ''MOVE_TYPE'', ''PATCHING_C'', ''PATCHING_A'', ''RUNS'', ''MAX_TRIALS'']
       @ (if 1 < population_size then [''POPULATION_SIZE'', ''RECOMBINATION''] else [])
       @ [''TOUR_FILE'']"
  by (simp add: create_par_file_def generate_par_file_def par_line_def par_key_def Let_def)

theorem par_file_order_witness:
  "map par_key (create_par_file ''a.tsp'' ''a.tour''
      \<lparr>MOVE_TYPE = 5, PATCHING_C = 3, PATCHING_A = 2, RUNS = 10, MAX_TRIALS = 1000,
       POPULATION_SIZE = 1, RECOMBINATION = ''IPT'', SCALE = 100\<rparr>)
     = [''PROBLEM_FILE'', ''MOVE_TYPE'', ''PATCHING_C'', ''PATCHING_A'', ''RUNS'', ''MAX_TRIALS'', ''TOUR_FILE'']
   \<and> generate_par_file (\<lambda>p. ''a'') ''a.par'' ''a.tsp'' 10 5 3 1000 None
     = [''PROBLEM_FILE = a.tsp'' @ [newline], ''MOVE_TYPE = 5'' @ [newline],
        ''PATCHING_C = 3'' @ [newline], ''PATCHING_A = 2'' @ [newline],
        ''RUNS = 10'' @ [newline], ''MAX_TRIALS = 1000'' @ [newline],
        ''POPULATION_SIZE = 3'' @ [newline], ''RECOMBINATION = CLARIST'' @ [newline],
        ''TOUR_FILE = a.tour'' @ [newline]]"
proof -
  have s: "str_int 10 = ''10''" "str_int 5 = ''5''" "str_int 3 = ''3''" "str_int 1000 = ''1000''"
    by code_simp+
  note th = par_file_order [of "''a.tsp''" "''a.tour''"
        "\<lparr>MOVE_TYPE = 5, PATCHING_C = 3, PATCHING_A = 2, RUNS = 10, MAX_TRIALS = 1000,
          POPULATION_SIZE = 1, RECOMBINATION = ''IPT'', SCALE = 100\<rparr>"
        "\<lambda>p. ''a''" "''a.par''" 10 5 3 1000 None]
  show ?thesis
    using th [THEN conjunct2, THEN conjunct1] th [THEN conjunct2, THEN conjunct2, THEN conjunct1]
    by (simp add: s par_line_def)
qed

text \<open>
  Claim C9.  On the headers \<open>city\<close>, \<open>Y-coordinate\<close>, \<open>X-coordinate\<close>
  \<open>detect_columns\<close> finds the identifier column \<open>city\<close> and neither a
  latitude nor a longitude column: its patterns are compared with the whole lower-cased
  header, and \<open>y-coordinate\<close> and \<open>x-coordinate\<close> are no patterns.
\<close>

theorem detect_columns_project_headers:
  "detect_columns [''city'', ''Y-coordinate'', ''X-coordinate''] = (Some ''city'', None, None)"
  by code_simp

section \<open>Properties of the distance matrix\<close>


lemma bind_Inr: "bind (Inr v) f = f v"
  by (simp add: bind_def)

lemma bind_Inl: "bind (Inl e) f = Inl e"
  by (simp add: bind_def)






lemma haversine_distance_Fin:
  "haversine_distance (Fin lat1) (Fin lon1) (Fin lat2) (Fin lon2)
     = Inr (Fin (haversine_km EARTH_RADIUS_KM lat1 lon1 lat2 lon2))"
  by (simp add: haversine_distance_def haversine_body_Fin)


lemma hav_a_sym: "hav_a lat1 lon1 lat2 lon2 = hav_a lat2 lon2 lat1 lon1"
proof -
  have s: "sin ((x - y) * (pi / 180) * (1 / 2)) * sin ((x - y) * (pi / 180) * (1 / 2))
         = sin ((y - x) * (pi / 180) * (1 / 2)) * sin ((y - x) * (pi / 180) * (1 / 2))" for x y :: real
  proof -
    have "(x - y) * (pi / 180) * (1 / 2) = - ((y - x) * (pi / 180) * (1 / 2))"
      by (simp add: field_simps)
    then show ?thesis by (simp only: sin_minus)
  qed
  show ?thesis
    unfolding hav_a_def s [of lat2 lat1] s [of lon2 lon1] by (simp add: mult.commute)
qed

lemma haversine_km_sym:
  "haversine_km radius lat1 lon1 lat2 lon2 = haversine_km radius lat2 lon2 lat1 lon1"
  unfolding haversine_km_def hav_a_sym [of lat1 lon1 lat2 lon2] ..



text \<open>Along a meridian the distance is the radius times the difference in latitude.\<close>

lemma haversine_km_meridian:
  assumes "0 \<le> d" and "d \<le> pi"
  shows "haversine_km radius 0 0 (d * 180 / pi) 0 = radius * d"
proof -
  have e: "(d * 180 / pi - 0) * (pi / 180) * (1 / 2) = d / 2"
    by (simp add: field_simps)
  have a: "hav_a 0 0 (d * 180 / pi) 0 = sin (d / 2) * sin (d / 2)"
    unfolding hav_a_def e by simp
  have s0: "0 \<le> sin (d / 2)" using assms by (intro sin_ge_zero) simp_all
  have c0: "0 \<le> cos (d / 2)" using assms by (intro cos_ge_zero) simp_all
  have sq: "sqrt (sin (d / 2) * sin (d / 2)) = sin (d / 2)" using s0 by simp
  have "1 - sin (d / 2) * sin (d / 2) = cos (d / 2) * cos (d / 2)"
    using sin_cos_squared_add [of "d / 2"] by (simp add: power2_eq_square)
  then have cq: "sqrt (1 - sin (d / 2) * sin (d / 2)) = cos (d / 2)" using c0 by simp
  have "atan2 (sin (d / 2)) (cos (d / 2)) = d / 2"
  proof (cases "d = pi")
    case True
    then show ?thesis by (simp add: atan2_def)
  next
    case False
    then have lt: "d / 2 < pi / 2" using assms by simp
    have gt: "- (pi / 2) < d / 2" using assms by (simp add: less_le_trans [of _ 0])
    have "0 < cos (d / 2)" using gt lt by (rule cos_gt_zero_pi)
    moreover have "arctan (sin (d / 2) / cos (d / 2)) = d / 2"
      using arctan_tan [OF gt lt] by (simp add: tan_def)
    ultimately show ?thesis by (simp add: atan2_def)
  qed
  then show ?thesis
    unfolding haversine_km_def a sq cq by simp
qed


lemma radians_special: "radians PInf = PInf" "radians NInf = NInf" "radians NaN = NaN"
  "radians (Fin x) = Fin (x * (pi / 180))"
  by (simp_all add: radians_def)

lemma fhalf_special: "fhalf PInf = PInf" "fhalf NInf = NInf" "fhalf NaN = NaN"
  "fhalf (Fin x) = Fin (x * (1 / 2))"
  by (simp_all add: fhalf_def)

lemma fsquare_special: "fsquare NaN = NaN" "fsquare (Fin x) = Fin (x * x)"
  by (simp_all add: fsquare_def)

lemma fmul_NaN: "fmul NaN b = NaN" "fmul a NaN = NaN"
  by (cases b; simp) (cases a; simp)

lemma fadd_NaN: "fadd NaN b = NaN" "fadd a NaN = NaN"
  by (cases b; simp) (cases a; simp)

lemma fsub_special: "fsub a NaN = NaN" "fsub NaN b = NaN"
  "fsub (Fin x) (Fin y) = Fin (x - y)"
  "fsub (Fin x) PInf = NInf" "fsub (Fin x) NInf = PInf"
  "fsub PInf (Fin y) = PInf" "fsub NInf (Fin y) = NInf"
  "fsub PInf PInf = NaN" "fsub NInf NInf = NaN" "fsub PInf NInf = PInf" "fsub NInf PInf = NInf"
  by (cases a; simp add: fsub_def fadd_NaN) (cases b; simp add: fsub_def)+

lemma haversine_tail_NaN:
  "bind (py_sqrt NaN) (\<lambda>sa. bind (py_sqrt (fsub (Fin 1) NaN)) (\<lambda>sb.
     let c = fmul (Fin 2) (py_atan2 sa sb) in Inr (fmul (Fin radius) c))) = Inr NaN"
  by (simp add: bind_Inr fsub_special fmul_NaN)

lemma haversine_body_nonfinite:
  assumes "\<not> (is_finite lat1 \<and> is_finite lon1 \<and> is_finite lat2 \<and> is_finite lon2)"
  shows "raises_or_nan (haversine_body radius lat1 lon1 lat2 lon2)"
  using assms
  by (cases lat1; cases lon1; cases lat2; cases lon2;
      simp add: haversine_body_def raises_or_nan_def radians_special fhalf_special fsquare_special
        fsub_special fmul_NaN fadd_NaN bind_Inr bind_Inl haversine_tail_NaN)

lemma scaled_dist_raises:
  assumes "raises_or_nan r"
  shows "\<exists>e. bind r (\<lambda>d. scaled_dist d scale) = Inl e"
  using assms
  by (cases r) (simp_all add: raises_or_nan_def bind_def scaled_dist_def fmul_NaN)

lemma is_finite_Fin: "is_finite x \<Longrightarrow> x = Fin (coord x)"
  by (cases x) simp_all

lemma haversine_distance_rows:
  assumes "finite_row r1" and "finite_row r2"
  shows "haversine_distance (row_lat r1) (row_lon r1) (row_lat r2) (row_lon r2)
           = Inr (Fin (row_km r1 r2))"
proof -
  have "row_lat r1 = Fin (coord (row_lat r1))" "row_lon r1 = Fin (coord (row_lon r1))"
    "row_lat r2 = Fin (coord (row_lat r2))" "row_lon r2 = Fin (coord (row_lon r2))"
    using assms by (simp_all add: finite_row_def is_finite_Fin)
  then show ?thesis
    using haversine_distance_Fin [of "coord (row_lat r1)" "coord (row_lon r1)"
        "coord (row_lat r2)" "coord (row_lon r2)"]
    by (simp add: row_km_def)
qed




lemma pair_entry_nonfinite:
  assumes "\<not> finite_row (df ! i) \<or> \<not> finite_row (df ! j)" and "i < length df" and "j < length df"
  shows "\<exists>e. pair_entry (map row_lat df) (map row_lon df) scale i j = Inl e"
proof -
  have "raises_or_nan (haversine_distance (row_lat (df ! i)) (row_lon (df ! i))
      (row_lat (df ! j)) (row_lon (df ! j)))"
    unfolding haversine_distance_def
    using assms(1) by (intro haversine_body_nonfinite) (auto simp: finite_row_def)
  then show ?thesis
    using assms(2,3) scaled_dist_raises by (simp add: pair_entry_def)
qed





lemma inner_loop_error:
  assumes "j \<in> set js" and "pair_entry lats lons scale i j = Inl e"
  shows "\<exists>e'. inner_loop lats lons scale i js m = Inl e'"
  using assms(1)
proof (induction js arbitrary: m)
  case Nil
  then show ?case by simp
next
  case (Cons k js)
  show ?case
  proof (cases "pair_entry lats lons scale i k")
    case (Inl e1)
    then show ?thesis
      by (auto simp: pair_entry_def bind_def split: sum.splits)
  next
    case (Inr v)
    then have "k \<noteq> j" using assms(2) by auto
    then have "j \<in> set js" using Cons.prems by simp
    then have "\<exists>e'. inner_loop lats lons scale i js m2 = Inl e'" for m2
      by (rule Cons.IH)
    then show ?thesis
      by (auto simp: bind_def split: sum.splits)
  qed
qed

lemma outer_loop_error:
  assumes "i \<in> set is" and "\<And>m. \<exists>e. inner_loop lats lons scale i [Suc i..<n] m = Inl e"
  shows "\<exists>e. outer_loop lats lons scale n is m = Inl e"
  using assms(1)
proof (induction "is" arbitrary: m)
  case Nil
  then show ?case by simp
next
  case (Cons k "is")
  show ?case
  proof (cases "inner_loop lats lons scale k [Suc k..<n] m")
    case (Inl e1)
    then show ?thesis by (simp add: bind_Inl)
  next
    case (Inr m1)
    then have "k \<noteq> i" using assms(2) [of m] by auto
    then have "i \<in> set is" using Cons.prems by simp
    then show ?thesis
      using Cons.IH [of m1] by (simp add: Inr bind_Inr)
  qed
qed

lemma meridian_rows_km: "row_km (meridian_rows ! 0) (meridian_rows ! 1) = 1 / 2"
proof -
  have e: "half_km_lat = (1 / (2 * 6371.008)) * 180 / pi"
    by (simp add: half_km_lat_def field_simps)
  have p: "(1::real) / (2 * 6371.008) \<le> pi"
    using pi_ge_two by (simp add: field_simps)
  have "haversine_km EARTH_RADIUS_KM 0 0 ((1 / (2 * 6371.008)) * 180 / pi) 0
      = EARTH_RADIUS_KM * (1 / (2 * 6371.008))"
    by (rule haversine_km_meridian) (use p in simp_all)
  then show ?thesis
    by (simp add: row_km_def meridian_rows_def e EARTH_RADIUS_KM_def)
qed

lemma meridian_rows_finite: "\<forall>r \<in> set meridian_rows. finite_row r"
  by (simp add: meridian_rows_def finite_row_def)

lemma zeros_2: "zeros (Suc (Suc 0)) = [[0, 0], [0, 0]]"
  by (simp add: zeros_def)

lemma meridian_haversine:
  "haversine_distance (Fin 0) (Fin 0) (Fin half_km_lat) (Fin 0) = Inr (Fin (1 / 2))"
  using haversine_distance_rows [of "meridian_rows ! 0" "meridian_rows ! 1"] meridian_rows_km
  by (simp add: meridian_rows_def finite_row_def)

lemma meridian_matrix:
  "fits_int64 (round_half_even (1 / 2 * of_int scale)) \<Longrightarrow>
   compute_distance_matrix meridian_rows scale =
     Inr [[0, round_half_even (1 / 2 * of_int scale)], [round_half_even (1 / 2 * of_int scale), 0]]"
  by (simp add: compute_distance_matrix_def meridian_rows_def zeros_2 meridian_haversine
      bind_Inr scaled_dist_def setitem_def fits_int64_def)




text \<open>
  Claim C5, as the code has it.  \<open>compute_distance_matrix\<close> validates nothing:
  with fewer than two rows it returns the zero matrix of that size, whatever the
  coordinates; with two rows or more, one of them with a coordinate that is not finite,
  it raises a built-in exception and returns no matrix.
\<close>

theorem distance_matrix_no_validation:
  "(length df < 2 \<longrightarrow> compute_distance_matrix df scale = Inr (zeros (length df)))
   \<and> (2 \<le> length df \<and> (\<exists>r \<in> set df. \<not> finite_row r)
        \<longrightarrow> (\<exists>e. compute_distance_matrix df scale = Inl e))"
proof (intro conjI impI)
  assume l: "length df < 2"
  show "compute_distance_matrix df scale = Inr (zeros (length df))"
  proof (cases df)
    case Nil
    then show ?thesis
      by (simp add: compute_distance_matrix_def)
  next
    case (Cons r rs)
    then have "rs = []" using l by simp
    then show ?thesis
      using Cons by (simp add: compute_distance_matrix_def bind_Inr)
  qed
next
  let ?n = "length df"
  let ?lats = "map row_lat df" and ?lons = "map row_lon df"
  assume h: "2 \<le> ?n \<and> (\<exists>r \<in> set df. \<not> finite_row r)"
  then obtain k where k: "k < ?n" and nf: "\<not> finite_row (df ! k)"
    by (auto simp: in_set_conv_nth)
  have "\<exists>i j. i < j \<and> j < ?n \<and> (\<exists>e. pair_entry ?lats ?lons scale i j = Inl e)"
  proof (cases "Suc k < ?n")
    case True
    then show ?thesis
      using pair_entry_nonfinite [of df k "Suc k" scale] nf k by auto
  next
    case False
    then have "0 < k" using h k by simp
    moreover have "0 < length df" using k by (cases df) simp_all
    then have "\<exists>e. pair_entry ?lats ?lons scale 0 k = Inl e"
      using nf k by (intro pair_entry_nonfinite) simp_all
    ultimately show ?thesis
      using k by blast
  qed
  then obtain i j e where ij: "i < j" "j < ?n" and e: "pair_entry ?lats ?lons scale i j = Inl e"
    by blast
  have "\<exists>e'. inner_loop ?lats ?lons scale i [Suc i..<?n] m = Inl e'" for m
    using ij by (intro inner_loop_error [OF _ e]) simp
  then have "\<exists>e. outer_loop ?lats ?lons scale ?n [0..<?n] (zeros ?n) = Inl e"
    using ij by (intro outer_loop_error [of i]) simp_all
  then show "\<exists>e. compute_distance_matrix df scale = Inl e"
    by (simp add: compute_distance_matrix_def Let_def)
qed

theorem distance_matrix_no_validation_witness:
  "length [nan_row] < 2 \<and> compute_distance_matrix [nan_row] 1 = Inr [[0]]
   \<and> 2 \<le> length (nan_row # meridian_rows) \<and> \<not> finite_row nan_row
   \<and> (\<exists>e. compute_distance_matrix (nan_row # meridian_rows) 1 = Inl e)"
proof -
  have n: "\<not> finite_row nan_row" by (simp add: nan_row_def finite_row_def)
  have z: "zeros (length [nan_row]) = [[0]]" by (simp add: zeros_def)
  have l: "2 \<le> length (nan_row # meridian_rows)" by (simp add: meridian_rows_def)
  show ?thesis
    using distance_matrix_no_validation [of "[nan_row]" 1, THEN conjunct1]
      distance_matrix_no_validation [of "nan_row # meridian_rows" 1, THEN conjunct2] n z l
    by simp
qed

text \<open>
  No row, and one row with coordinates NaN and infinity: a matrix is returned.
\<close>

theorem distance_matrix_validation_counterexample:
  "compute_distance_matrix [] 1 = Inr []
   \<and> \<not> finite_row nan_row
   \<and> compute_distance_matrix [nan_row] 1 = Inr [[0]]"
  by (simp add: compute_distance_matrix_def zeros_def bind_Inr nan_row_def finite_row_def)

section \<open>Properties of the tour distance\<close>

lemma iloc_valid:
  assumes "1 \<le> node_id" and "node_id \<le> int (length df)"
  shows "iloc df (node_id - 1) = Inr (df ! nat (node_id - 1))"
  using assms by (simp add: iloc_def Let_def)

lemma valid_row:
  assumes "valid_tour df tour_order" and "i < length tour_order"
  shows "1 \<le> tour_order ! i" and "tour_order ! i \<le> int (length df)"
    and "nat (tour_order ! i - 1) < length df"
proof -
  show a: "1 \<le> tour_order ! i" and b: "tour_order ! i \<le> int (length df)"
    using assms by (auto simp: valid_tour_def)
  then show "nat (tour_order ! i - 1) < length df"
    by arith
qed

lemma haversine_body_rows:
  assumes "finite_row r1" and "finite_row r2"
  shows "haversine_body radius (row_lat r1) (row_lon r1) (row_lat r2) (row_lon r2)
           = Inr (Fin (edge_km radius (coord (row_lat r1), coord (row_lon r1))
                                       (coord (row_lat r2), coord (row_lon r2))))"
proof -
  have "row_lat r1 = Fin (coord (row_lat r1))" "row_lon r1 = Fin (coord (row_lon r1))"
    "row_lat r2 = Fin (coord (row_lat r2))" "row_lon r2 = Fin (coord (row_lon r2))"
    using assms by (simp_all add: finite_row_def is_finite_Fin)
  then show ?thesis
    using haversine_body_Fin [of radius "coord (row_lat r1)" "coord (row_lon r1)"
        "coord (row_lat r2)" "coord (row_lon r2)"]
    by (simp add: edge_km_def)
qed

lemma calculate_distance_loop_sum:
  assumes "\<forall>r \<in> set df. finite_row r" and "valid_tour df tour_order"
    and "\<forall>i \<in> set is. i < length tour_order"
  shows "calculate_distance_loop df tour_order is (Fin t)
           = Inr (Fin (t + ring_km EARTH_RADIUS_KM (map (point_of df) tour_order) is))"
  using assms(3)
proof (induction "is" arbitrary: t)
  case Nil
  then show ?case by (simp add: ring_km_def)
next
  case (Cons i "is")
  let ?L = "length tour_order"
  let ?j = "Suc i mod ?L"
  have i: "i < ?L" using Cons.prems by simp
  then have "0 < ?L" by (cases tour_order) simp_all
  then have j: "?j < ?L" by (rule mod_less_divisor)
  note vi = valid_row [OF assms(2) i]
  note vj = valid_row [OF assms(2) j]
  have fi: "finite_row (df ! nat (tour_order ! i - 1))"
    and fj: "finite_row (df ! nat (tour_order ! ?j - 1))"
    using assms(1) vi(3) vj(3) by simp_all
  have h: "haversine_distance
             (row_lat (df ! nat (tour_order ! i - 1))) (row_lon (df ! nat (tour_order ! i - 1)))
             (row_lat (df ! nat (tour_order ! ?j - 1))) (row_lon (df ! nat (tour_order ! ?j - 1)))
           = Inr (Fin (edge_km EARTH_RADIUS_KM (map (point_of df) tour_order ! i)
                         (map (point_of df) tour_order ! ?j)))"
    unfolding haversine_distance_def using haversine_body_rows [OF fi fj] i j
    by (simp add: point_of_def)
  have "calculate_distance_loop df tour_order (i # is) (Fin t)
      = calculate_distance_loop df tour_order is
          (Fin (t + edge_km EARTH_RADIUS_KM (map (point_of df) tour_order ! i)
                      (map (point_of df) tour_order ! ?j)))"
    by (simp add: Let_def iloc_valid [OF vi(1,2)] iloc_valid [OF vj(1,2)] bind_Inr h)
  also have "\<dots> = Inr (Fin (t + edge_km EARTH_RADIUS_KM (map (point_of df) tour_order ! i)
                      (map (point_of df) tour_order ! ?j)
                    + ring_km EARTH_RADIUS_KM (map (point_of df) tour_order) is))"
    using Cons.prems by (intro Cons.IH) simp
  finally show ?case
    by (simp add: ring_km_def add.assoc)
qed

lemma zip_tl_nth:
  "zip ps (tl ps) = map (\<lambda>i. (ps ! i, ps ! Suc i)) [0..<length ps - 1]"
  by (rule nth_equalityI) (simp_all add: nth_tl)

lemma ring_km_closed_loop:
  "ring_km radius ps [0..<length ps] = closed_loop_km radius ps"
proof (cases "ps = []")
  case True
  then show ?thesis by (simp add: ring_km_def closed_loop_km_def)
next
  case False
  let ?L = "length ps"
  have L: "0 < ?L" using False by simp
  then have u: "[0..<?L] = [0..<?L - 1] @ [?L - 1]"
    by (metis Suc_pred' upt_Suc_append zero_le)
  have a: "(\<Sum>i \<leftarrow> [0..<?L - Suc 0]. edge_km radius (ps ! i) (ps ! (Suc i mod ?L)))
         = (\<Sum>i \<leftarrow> [0..<?L - Suc 0]. edge_km radius (ps ! i) (ps ! Suc i))"
    by (rule arg_cong [where f = sum_list], rule map_cong) (simp_all add: mod_less)
  have b: "(\<Sum>(p, q) \<leftarrow> zip ps (tl ps). edge_km radius p q)
         = (\<Sum>i \<leftarrow> [0..<?L - Suc 0]. edge_km radius (ps ! i) (ps ! Suc i))"
    unfolding zip_tl_nth by (simp add: comp_def)
  have c: "ps ! (?L - Suc 0) = last ps" "ps ! 0 = hd ps"
    using False by (simp_all add: last_conv_nth hd_conv_nth)
  have "ring_km radius ps [0..<?L]
      = (\<Sum>i \<leftarrow> [0..<?L - 1]. edge_km radius (ps ! i) (ps ! ((i + 1) mod ?L)))
        + edge_km radius (ps ! (?L - 1)) (ps ! ((?L - 1 + 1) mod ?L))"
    unfolding ring_km_def by (subst u) simp
  also have "(?L - 1 + 1) mod ?L = 0" using L by simp
  finally show ?thesis
    using False by (simp add: a b c closed_loop_km_def)
qed

lemma calculate_distance_closed_loop:
  assumes "\<forall>r \<in> set df. finite_row r" and "valid_tour df tour_order"
  shows "calculate_distance df tour_order
           = Inr (Fin (closed_loop_km EARTH_RADIUS_KM (map (point_of df) tour_order)))"
proof -
  have "calculate_distance df tour_order
      = Inr (Fin (0 + ring_km EARTH_RADIUS_KM (map (point_of df) tour_order) [0..<length tour_order]))"
    unfolding calculate_distance_def
    by (rule calculate_distance_loop_sum [OF assms]) simp
  then show ?thesis
    using ring_km_closed_loop [of EARTH_RADIUS_KM "map (point_of df) tour_order"] by simp
qed

lemma point_of_row_km:
  "edge_km EARTH_RADIUS_KM (point_of df (int i + 1)) (point_of df (int j + 1)) = row_km (df ! i) (df ! j)"
  by (simp add: edge_km_def point_of_def row_km_def)

lemma closed_loop_km_two:
  "closed_loop_km radius [p, q] = edge_km radius p q + edge_km radius q p"
  by (simp add: closed_loop_km_def)

lemma edge_km_sym: "edge_km radius p q = edge_km radius q p"
  unfolding edge_km_def by (rule haversine_km_sym)

lemma meridian_rows_km_Suc: "row_km (meridian_rows ! 0) (meridian_rows ! Suc 0) = 1 / 2"
  using meridian_rows_km by simp

lemma meridian_valid: "valid_tour meridian_rows [1, 2]"
  by (simp add: valid_tour_def meridian_rows_def)












section \<open>Properties of the pipeline\<close>

lemma meridian_round_trip: "calculate_distance meridian_rows [1, 2] = Inr (Fin 1)"
  using calculate_distance_closed_loop [OF meridian_rows_finite meridian_valid]
    point_of_row_km [of meridian_rows 0 1] edge_km_sym [of EARTH_RADIUS_KM "point_of meridian_rows 2"]
  by (simp add: closed_loop_km_two meridian_rows_km_Suc)

lemma meridian_matrix_4: "compute_distance_matrix meridian_rows 4 = Inr [[0, 2], [2, 0]]"
proof -
  have r: "round_half_even 2 = 2"
    by (simp add: round_half_even_def)
  show ?thesis
    using meridian_matrix [of 4] by (simp add: r fits_int64_def)
qed

lemma failed_solver_run:
  "run_optimization failed_solver_env =
     ([ConvertToTSP, CreateParFile, RunLKH, Reconcile, CalculateDistance, GenerateMap],
      Completed \<lparr>visiting_order = [1, 2], response = [(''a'', 1), (''b'', 2)]\<rparr> (Fin 1))"
proof -
  have p: "parse_tour (Some [''TOUR_SECTION'', ''1'', ''2'', ''-1'', ''EOF'']) = Inr [1, 2]"
    by code_simp
  have g: "generate_output meridian_rows [1, 2]
      = Inr \<lparr>visiting_order = [1, 2], response = [(''a'', 1), (''b'', 2)]\<rparr>"
    by (simp add: generate_output_def meridian_rows_def enumerate_eq_zip upt_rec)
  show ?thesis
    by (simp add: run_optimization_def failed_solver_env_def meridian_matrix_4 run_lkh_def p g
        meridian_round_trip)
qed

text \<open>
  Claim C2, as the code has it.  The run does not look at the solver's exit status: its
  outcome is the same for every status.  Once the matrix is built, the executable has
  been started and \<open>is_running\<close> is still set, the reconciliation is entered
  whatever the status was; it is not entered when the executable cannot be started.
\<close>

theorem run_ignores_exit_status:
  "run_optimization (env\<lparr>env_exit_status := status\<rparr>) = run_optimization env
   \<and> (env_exe_present env \<and> env_running_after_convert env \<and> env_running_after_lkh env
        \<and> (\<exists>m. compute_distance_matrix (env_df env) (SCALE (env_params env)) = Inr m)
      \<longrightarrow> Reconcile \<in> set (fst (run_optimization env)))
   \<and> (\<not> env_exe_present env \<longrightarrow> Reconcile \<notin> set (fst (run_optimization env)))"
proof (intro conjI impI)
  show "run_optimization (env\<lparr>env_exit_status := status\<rparr>) = run_optimization env"
    by (simp add: run_optimization_def run_lkh_def cong: sum.case_cong if_cong)
next
  assume "env_exe_present env \<and> env_running_after_convert env \<and> env_running_after_lkh env
        \<and> (\<exists>m. compute_distance_matrix (env_df env) (SCALE (env_params env)) = Inr m)"
  then show "Reconcile \<in> set (fst (run_optimization env))"
    by (auto simp: run_optimization_def run_lkh_def split: sum.splits)
next
  assume "\<not> env_exe_present env"
  then show "Reconcile \<notin> set (fst (run_optimization env))"
    by (auto simp: run_optimization_def run_lkh_def split: sum.splits)
qed

theorem run_ignores_exit_status_witness:
  "run_optimization (failed_solver_env\<lparr>env_exit_status := 0\<rparr>) = run_optimization failed_solver_env
   \<and> env_exe_present failed_solver_env \<and> env_running_after_convert failed_solver_env
   \<and> env_running_after_lkh failed_solver_env
   \<and> compute_distance_matrix (env_df failed_solver_env) (SCALE (env_params failed_solver_env))
       = Inr [[0, 2], [2, 0]]
   \<and> Reconcile \<in> set (fst (run_optimization failed_solver_env))
   \<and> \<not> env_exe_present (failed_solver_env\<lparr>env_exe_present := False\<rparr>)
   \<and> Reconcile \<notin> set (fst (run_optimization (failed_solver_env\<lparr>env_exe_present := False\<rparr>)))"
proof -
  have a: "env_exe_present failed_solver_env" "env_running_after_convert failed_solver_env"
    "env_running_after_lkh failed_solver_env"
    by (simp_all add: failed_solver_env_def)
  have m: "compute_distance_matrix (env_df failed_solver_env) (SCALE (env_params failed_solver_env))
       = Inr [[0, 2], [2, 0]]"
    by (simp add: failed_solver_env_def meridian_matrix_4)
  note th1 = run_ignores_exit_status [where env = failed_solver_env and status = 0]
  note th2 = run_ignores_exit_status
    [where env = "failed_solver_env\<lparr>env_exe_present := False\<rparr>" and status = 0]
  have b: "\<not> env_exe_present (failed_solver_env\<lparr>env_exe_present := False\<rparr>)" by simp
  have "Reconcile \<in> set (fst (run_optimization failed_solver_env))"
    using th1 a m by blast
  moreover have "Reconcile \<notin> set (fst (run_optimization (failed_solver_env\<lparr>env_exe_present := False\<rparr>)))"
    using th2 b by blast
  ultimately show ?thesis
    using th1 a m b by (intro conjI) simp_all
qed

text \<open>
  The solver exits with status 1 and a complete tour file: the run enters the
  reconciliation and completes with the tables and the total distance.
\<close>

theorem run_exit_status_counterexample:
  "env_exit_status failed_solver_env = 1
   \<and> run_optimization failed_solver_env =
       ([ConvertToTSP, CreateParFile, RunLKH, Reconcile, CalculateDistance, GenerateMap],
        Completed \<lparr>visiting_order = [1, 2], response = [(''a'', 1), (''b'', 2)]\<rparr> (Fin 1))"
  using failed_solver_run by (simp add: failed_solver_env_def)

end
